theory Spec2Isabelle
  imports
    Complex_Main
    "HOL-Library.Char_ord"
    "HOL-Library.List_Lexorder"
    "HOL-Library.Product_Lexorder"
begin

section \<open>Stock Keeper: the item store of app/db/database.js and app/db/schema.sql\<close>

text \<open>
  The data layer is a set of SQL statements run against three tables (locations, items,
  consumption_history).  A table is a list of rows in insertion order, a statement is a
  function on the store, and a statement that SQLite aborts (a NOT NULL, CHECK or FOREIGN
  KEY constraint, or a parameter that cannot be bound) returns an error and leaves the store
  as it was.

  Modelling conventions:
  \<^item> a calendar date (an ISO text \<open>YYYY-MM-DD\<close> in the DATE columns) is its day number, an
    \<open>int\<close>; \<open>date(x) < date(y)\<close> is \<open><\<close> on day numbers, the modifier \<open>'+3 days'\<close> adds 3,
    and \<open>julianday\<close> of a date is the day number minus one half (the Julian day of its
    midnight, up to a constant offset that cancels in every difference taken here);
  \<^item> \<open>NULL\<close> is \<open>None\<close>;
  \<^item> a REAL column and a JavaScript number are a \<open>real\<close>; \<open>NaN\<close> and \<open>undefined\<close> are \<open>None\<close>;
  \<^item> a TEXT value is a \<open>string\<close>, one list element per character;
  \<^item> the audit timestamps created_at and updated_at are not modelled.
\<close>

subsection \<open>The clock\<close>

text \<open>
  \<open>now_date\<close> is the local calendar date (\<open>date('now','localtime')\<close>), \<open>now_ms\<close> the
  milliseconds elapsed since local midnight (below 86400000), \<open>utc_date\<close> the UTC calendar
  date (\<open>new Date().toISOString().split('T')[0]\<close>).
\<close>

record clock =
  now_date :: int
  now_ms :: nat
  utc_date :: int

definition julianday_date :: "int \<Rightarrow> real" where
  "julianday_date d = real_of_int d - 1 / 2"

definition julianday_now :: "clock \<Rightarrow> real" where
  "julianday_now now = real_of_int (now_date now) - 1 / 2 + real (now_ms now) / 86400000"

text \<open>\<open>CAST(x AS INTEGER)\<close> of a REAL: truncation toward zero.\<close>

definition cast_integer :: "real \<Rightarrow> int" where
  "cast_integer x = (if 0 \<le> x then \<lfloor>x\<rfloor> else \<lceil>x\<rceil>)"

subsection \<open>Tables\<close>

record location =
  l_id :: int
  l_name :: string
  l_type :: string
  l_icon :: "string option"
  l_color :: "string option"
  l_sort_order :: "int option"
  l_is_visible :: "bool option"

text \<open>
  The text held by date_added: a calendar date, or the empty text, which the column (NOT
  NULL) accepts.
\<close>

datatype date_text = Day int | Empty_text

record item =
  i_id :: int
  i_title :: string
  i_description :: "string option"
  i_category :: string
  i_location :: "string option"
  i_location_id :: "int option"
  i_brand :: "string option"
  i_is_homemade :: bool
  i_quantity :: real
  i_unit :: string
  i_date_added :: date_text
  i_expiry_date :: "int option"
  i_image_path :: "string option"

text \<open>
  \<open>h_item_id\<close> is an option because the foreign-key action ON DELETE SET NULL writes NULL
  into it; the column's NOT NULL constraint is checked by the statements below.
\<close>

record consumption =
  h_id :: int
  h_item_id :: "int option"
  h_item_title :: string
  h_quantity_used :: real
  h_unit :: string
  h_action :: string
  h_notes :: "string option"
  h_consumed_at :: "int \<times> nat"

text \<open>
  \<open>items_seq\<close> and \<open>history_seq\<close> are the sqlite_sequence entries of the two AUTOINCREMENT
  keys: the largest rowid ever handed out.
\<close>

record store =
  locations :: "location list"
  items :: "item list"
  consumption_history :: "consumption list"
  items_seq :: int
  history_seq :: int

text \<open>
  What makes \<open>db.run\<close> throw: sql.js refuses to bind \<open>undefined\<close> (``Wrong API use''), and
  SQLite aborts a statement that breaks a constraint of schema.sql.
\<close>

datatype db_error = BindFailed | NotNullFailed | CheckFailed | ForeignKeyFailed

text \<open>AUTOINCREMENT: one more than the largest rowid that ever existed in the table.\<close>

definition next_rowid :: "int \<Rightarrow> int list \<Rightarrow> int" where
  "next_rowid seq ids = foldr max ids (max seq 0) + 1"

subsection \<open>JavaScript's \<open>||\<close> on the values the data layer receives\<close>

definition or_str :: "string option \<Rightarrow> string \<Rightarrow> string" where
  "or_str v d = (case v of None \<Rightarrow> d | Some s \<Rightarrow> if s = [] then d else s)"

definition or_null_str :: "string option \<Rightarrow> string option" where
  "or_null_str v = (case v of None \<Rightarrow> None | Some s \<Rightarrow> if s = [] then None else Some s)"

definition or_null_int :: "int option \<Rightarrow> int option" where
  "or_null_int v = (case v of None \<Rightarrow> None | Some n \<Rightarrow> if n = 0 then None else Some n)"

definition or_number :: "real option \<Rightarrow> real \<Rightarrow> real" where
  "or_number v d = (case v of None \<Rightarrow> d | Some x \<Rightarrow> if x = 0 then d else x)"

subsection \<open>The derived columns of getItems and getItemById\<close>

text \<open>The CASE expressions of getItems (database.js lines 153 to 163).\<close>

definition getItems_expiry_status :: "clock \<Rightarrow> item \<Rightarrow> string" where
  "getItems_expiry_status now i =
     (case i_expiry_date i of
        None \<Rightarrow> ''none''
      | Some d \<Rightarrow>
          if d < now_date now then ''expired''
          else if d = now_date now then ''today''
          else if d \<le> now_date now + 3 then ''soon''
          else ''ok'')"

definition getItems_days_until_expiry :: "clock \<Rightarrow> item \<Rightarrow> int option" where
  "getItems_days_until_expiry now i =
     (case i_expiry_date i of
        None \<Rightarrow> None
      | Some d \<Rightarrow> Some (cast_integer (julianday_date d - julianday_now now)))"

text \<open>The CASE expressions of getItemById (database.js lines 230 to 240).\<close>

definition getItemById_expiry_status :: "clock \<Rightarrow> item \<Rightarrow> string" where
  "getItemById_expiry_status now i =
     (case i_expiry_date i of
        None \<Rightarrow> ''none''
      | Some d \<Rightarrow>
          if d < now_date now then ''expired''
          else if d = now_date now then ''today''
          else if d \<le> now_date now + 3 then ''soon''
          else ''ok'')"

definition getItemById_days_until_expiry :: "clock \<Rightarrow> item \<Rightarrow> int option" where
  "getItemById_days_until_expiry now i =
     (case i_expiry_date i of
        None \<Rightarrow> None
      | Some d \<Rightarrow> Some (cast_integer (julianday_date d - julianday_now now)))"

text \<open>A result row: \<open>i.*\<close>, the four columns of the joined location, the two derived columns.\<close>

record item_row = item +
  location_name :: "string option"
  location_icon :: "string option"
  location_type :: "string option"
  location_color :: "string option"
  expiry_status :: string
  days_until_expiry :: "int option"

text \<open>\<open>LEFT JOIN locations l ON i.location_id = l.id\<close>: at most one location, \<open>id\<close> being the key.\<close>

definition joined_location :: "store \<Rightarrow> item \<Rightarrow> location option" where
  "joined_location st i =
     (case i_location_id i of
        None \<Rightarrow> None
      | Some n \<Rightarrow> find (\<lambda>l. l_id l = n) (locations st))"

definition select_columns :: "store \<Rightarrow> item \<Rightarrow> string \<Rightarrow> int option \<Rightarrow> item_row" where
  "select_columns st i status days =
     \<lparr> i_id = i_id i, i_title = i_title i, i_description = i_description i,
       i_category = i_category i, i_location = i_location i,
       i_location_id = i_location_id i, i_brand = i_brand i,
       i_is_homemade = i_is_homemade i, i_quantity = i_quantity i, i_unit = i_unit i,
       i_date_added = i_date_added i, i_expiry_date = i_expiry_date i,
       i_image_path = i_image_path i,
       location_name = map_option l_name (joined_location st i),
       location_icon = Option.bind (joined_location st i) l_icon,
       location_type = map_option l_type (joined_location st i),
       location_color = Option.bind (joined_location st i) l_color,
       expiry_status = status,
       days_until_expiry = days \<rparr>"

subsection \<open>getItems: the WHERE clause\<close>

record filters =
  f_locationId :: "int option"
  f_location :: "string option"
  f_category :: "string option"
  f_search :: "string option"
  f_expiryStatus :: "string option"

text \<open>SQLite's LIKE: \<open>%\<close> is any run of characters, \<open>_\<close> any one, ASCII letters fold case.\<close>

definition lower_ascii :: "char \<Rightarrow> char" where
  "lower_ascii c =
     (if CHR ''A'' \<le> c \<and> c \<le> CHR ''Z'' then char_of (of_char c + (32::nat)) else c)"

fun sql_like :: "string \<Rightarrow> string \<Rightarrow> bool" where
  "sql_like [] s = (s = [])"
| "sql_like (p # ps) [] = (p = CHR ''%'' \<and> sql_like ps [])"
| "sql_like (p # ps) (c # cs) =
     (if p = CHR ''%'' then sql_like ps (c # cs) \<or> sql_like (p # ps) cs
      else (p = CHR ''_'' \<or> lower_ascii p = lower_ascii c) \<and> sql_like ps cs)"

definition like_opt :: "string option \<Rightarrow> string \<Rightarrow> bool" where
  "like_opt v pat = (case v of None \<Rightarrow> False | Some s \<Rightarrow> sql_like pat s)"

text \<open>Each \<open>if (filters.x)\<close> appends its condition only for a truthy value.\<close>

definition locationId_clause :: "filters \<Rightarrow> item \<Rightarrow> bool" where
  "locationId_clause f i =
     (case f_locationId f of
        None \<Rightarrow> True
      | Some n \<Rightarrow> if n = 0 then True else i_location_id i = Some n)"

definition location_clause :: "filters \<Rightarrow> store \<Rightarrow> item \<Rightarrow> bool" where
  "location_clause f st i =
     (case f_location f of
        None \<Rightarrow> True
      | Some s \<Rightarrow>
          if s = [] then True
          else i_location i = Some s \<or> map_option l_type (joined_location st i) = Some s)"

definition category_clause :: "filters \<Rightarrow> item \<Rightarrow> bool" where
  "category_clause f i =
     (case f_category f of
        None \<Rightarrow> True
      | Some s \<Rightarrow> if s = [] then True else i_category i = s)"

definition search_clause :: "filters \<Rightarrow> item \<Rightarrow> bool" where
  "search_clause f i =
     (case f_search f of
        None \<Rightarrow> True
      | Some s \<Rightarrow>
          if s = [] then True
          else (let searchTerm = ''%'' @ s @ ''%''
                in sql_like searchTerm (i_title i)
                   \<or> like_opt (i_description i) searchTerm
                   \<or> like_opt (i_brand i) searchTerm))"

text \<open>The \<open>switch (filters.expiryStatus)\<close> of database.js lines 194 to 209; no default case.\<close>

definition expiryStatus_clause :: "clock \<Rightarrow> filters \<Rightarrow> item \<Rightarrow> bool" where
  "expiryStatus_clause now f i =
     (case f_expiryStatus f of
        None \<Rightarrow> True
      | Some b \<Rightarrow>
          if b = ''expired'' then
            (case i_expiry_date i of None \<Rightarrow> False | Some d \<Rightarrow> d < now_date now)
          else if b = ''today'' then
            (case i_expiry_date i of None \<Rightarrow> False | Some d \<Rightarrow> d = now_date now)
          else if b = ''soon'' then
            (case i_expiry_date i of
               None \<Rightarrow> False
             | Some d \<Rightarrow> d > now_date now \<and> d \<le> now_date now + 3)
          else if b = ''ok'' then
            (case i_expiry_date i of None \<Rightarrow> True | Some d \<Rightarrow> d > now_date now + 3)
          else True)"

definition where_clause :: "clock \<Rightarrow> filters \<Rightarrow> store \<Rightarrow> item \<Rightarrow> bool" where
  "where_clause now f st i =
     (locationId_clause f i \<and> location_clause f st i \<and> category_clause f i
      \<and> search_clause f i \<and> expiryStatus_clause now f i)"

subsection \<open>getItems: ORDER BY and the query\<close>

text \<open>
  \<open>ORDER BY CASE WHEN i.expiry_date IS NULL THEN 1 ELSE 0 END, i.expiry_date ASC, i.title ASC\<close>.
  Rows with equal keys keep their table order.
\<close>

definition order_key :: "item \<Rightarrow> nat \<times> int \<times> string" where
  "order_key i =
     (case i_expiry_date i of
        None \<Rightarrow> (1, 0, i_title i)
      | Some d \<Rightarrow> (0, d, i_title i))"

definition getItems :: "clock \<Rightarrow> filters \<Rightarrow> store \<Rightarrow> item_row list" where
  "getItems now f st =
     map (\<lambda>i. select_columns st i (getItems_expiry_status now i)
                 (getItems_days_until_expiry now i))
       (sort_key order_key (filter (where_clause now f st) (items st)))"

text \<open>getItemById: \<open>WHERE i.id = ?\<close>, first row of the result or undefined.\<close>

definition getItemById :: "clock \<Rightarrow> store \<Rightarrow> int \<Rightarrow> item_row option" where
  "getItemById now st n =
     map_option
       (\<lambda>i. select_columns st i (getItemById_expiry_status now i)
               (getItemById_days_until_expiry now i))
       (find (\<lambda>i. i_id i = n) (items st))"

subsection \<open>createItem and updateItem\<close>

text \<open>
  A quantity handed to the data layer is a JavaScript number or, from a JSON body that is
  passed on unparsed (POST /api/items/bulk-update, items.js lines 1377 to 1378), a string.
  \<open>Numeric_text x\<close> is a non-empty string that SQLite reads as the number \<open>x\<close>, such as
  \<open>"0"\<close> or \<open>"2.5"\<close>: the REAL affinity of the quantity column stores it as \<open>x\<close>.  A string
  that SQLite does not read as a number is kept as text by the column and is not modelled.
\<close>

datatype quantity_value = Number real | Numeric_text real

text \<open>
  \<open>item.quantity || 1\<close> as the column stores it: the number 0 is falsy, a non-empty string
  is truthy whatever number it denotes.
\<close>

definition or_quantity :: "quantity_value option \<Rightarrow> real \<Rightarrow> real" where
  "or_quantity v d =
     (case v of
        None \<Rightarrow> d
      | Some (Number x) \<Rightarrow> if x = 0 then d else x
      | Some (Numeric_text x) \<Rightarrow> x)"

text \<open>
  The object handed to createItem and updateItem.  \<open>None\<close> is an absent property
  (\<open>undefined\<close>, or \<open>null\<close>); for \<open>quantity\<close> it is also \<open>NaN\<close> and the empty string, for
  \<open>expiry_date\<close> also the empty string, all of them falsy.  For \<open>date_added\<close>, which
  updateItem binds as it is, the empty string is \<open>Some Empty_text\<close>.  An absent \<open>title\<close> or
  \<open>date_added\<close> makes the statement fail, \<open>undefined\<close> when it is bound and \<open>null\<close> at the
  NOT NULL constraint; the store is unchanged either way, and the model answers
  \<open>BindFailed\<close> for both.
\<close>

record item_data =
  title :: "string option"
  description :: "string option"
  category :: "string option"
  location :: "string option"
  location_id :: "int option"
  brand :: "string option"
  is_homemade :: bool
  quantity :: "quantity_value option"
  unit :: "string option"
  date_added :: "date_text option"
  expiry_date :: "int option"
  image_path :: "string option"

text \<open>
  The constraints of the items table that a written row can break: CHECK(quantity >= 0),
  CHECK(unit IN ('pcs','g','kg','ml','L')), and the foreign key on location_id (enforced,
  since initializeDatabase runs \<open>PRAGMA foreign_keys = ON\<close>).
\<close>

definition items_constraints :: "store \<Rightarrow> item \<Rightarrow> db_error option" where
  "items_constraints st row =
     (if \<not> i_quantity row \<ge> 0 then Some CheckFailed
      else if i_unit row \<notin> set [''pcs'', ''g'', ''kg'', ''ml'', ''L''] then Some CheckFailed
      else (case i_location_id row of
              None \<Rightarrow> None
            | Some n \<Rightarrow>
                if n \<in> set (map l_id (locations st)) then None else Some ForeignKeyFailed))"

text \<open>The twelve bound values of createItem (database.js lines 261 to 274), as a row.\<close>

definition createItem_row :: "clock \<Rightarrow> store \<Rightarrow> string \<Rightarrow> item_data \<Rightarrow> item" where
  "createItem_row now st t item =
     \<lparr> i_id = next_rowid (items_seq st) (map i_id (items st)),
       i_title = t,
       i_description = Some (or_str (description item) []),
       i_category = or_str (category item) ''Uncategorized'',
       i_location = or_null_str (location item),
       i_location_id = or_null_int (location_id item),
       i_brand = (if is_homemade item then None else or_null_str (brand item)),
       i_is_homemade = (if is_homemade item then True else False),
       i_quantity = or_quantity (quantity item) 1,
       i_unit = or_str (unit item) ''pcs'',
       i_date_added =
         (case date_added item of Some (Day d) \<Rightarrow> Day d | _ \<Rightarrow> Day (utc_date now)),
       i_expiry_date = expiry_date item,
       i_image_path = or_null_str (image_path item) \<rparr>"

text \<open>createItem returns the new rowid (\<open>lastInsertRowid\<close>) and the store with the row added.\<close>

definition createItem :: "clock \<Rightarrow> item_data \<Rightarrow> store \<Rightarrow> db_error + (int \<times> store)" where
  "createItem now item st =
     (case title item of
        None \<Rightarrow> Inl BindFailed
      | Some t \<Rightarrow>
          (let row = createItem_row now st t item
           in case items_constraints st row of
                Some e \<Rightarrow> Inl e
              | None \<Rightarrow>
                  Inr (i_id row, st\<lparr>items := items st @ [row], items_seq := i_id row\<rparr>)))"

text \<open>The SET list of updateItem (database.js lines 285 to 316) applied to one row.\<close>

definition updateItem_row :: "string \<Rightarrow> date_text \<Rightarrow> item_data \<Rightarrow> item \<Rightarrow> item" where
  "updateItem_row t d item i =
     i\<lparr> i_title := t,
        i_description := Some (or_str (description item) []),
        i_category := or_str (category item) ''Uncategorized'',
        i_location := or_null_str (location item),
        i_location_id := or_null_int (location_id item),
        i_brand := (if is_homemade item then None else or_null_str (brand item)),
        i_is_homemade := (if is_homemade item then True else False),
        i_quantity := or_quantity (quantity item) 1,
        i_unit := or_str (unit item) ''pcs'',
        i_date_added := d,
        i_expiry_date := expiry_date item,
        i_image_path :=
          (case or_null_str (image_path item) of None \<Rightarrow> i_image_path i | Some p \<Rightarrow> Some p) \<rparr>"

text \<open>updateItem returns the number of rows changed.\<close>

definition updateItem :: "int \<Rightarrow> item_data \<Rightarrow> store \<Rightarrow> db_error + (nat \<times> store)" where
  "updateItem n item st =
     (case title item of
        None \<Rightarrow> Inl BindFailed
      | Some t \<Rightarrow>
          (case date_added item of
             None \<Rightarrow> Inl BindFailed
           | Some d \<Rightarrow>
               (case List.map_filter (\<lambda>i. items_constraints st (updateItem_row t d item i))
                       (filter (\<lambda>i. i_id i = n) (items st)) of
                  e # es \<Rightarrow> Inl e
                | [] \<Rightarrow>
                    Inr (length (filter (\<lambda>i. i_id i = n) (items st)),
                         st\<lparr>items :=
                              map (\<lambda>i. if i_id i = n then updateItem_row t d item i else i)
                                (items st)\<rparr>))))"

subsection \<open>updateItemQuantity and deleteItem\<close>

definition updateItemQuantity :: "int \<Rightarrow> real \<Rightarrow> store \<Rightarrow> db_error + (nat \<times> store)" where
  "updateItemQuantity n q st =
     (if filter (\<lambda>i. i_id i = n) (items st) \<noteq> [] \<and> \<not> q \<ge> 0 then Inl CheckFailed
      else Inr (length (filter (\<lambda>i. i_id i = n) (items st)),
                st\<lparr>items := map (\<lambda>i. if i_id i = n then i\<lparr>i_quantity := q\<rparr> else i) (items st)\<rparr>))"

text \<open>
  \<open>FOREIGN KEY (item_id) REFERENCES items(id) ON DELETE SET NULL\<close> (schema.sql line 126): the
  action that deleting the item with key \<open>n\<close> runs on consumption_history.
\<close>

definition on_delete_set_null :: "int \<Rightarrow> consumption list \<Rightarrow> consumption list" where
  "on_delete_set_null n hs =
     map (\<lambda>h. if h_item_id h = Some n then h\<lparr>h_item_id := None\<rparr> else h) hs"

text \<open>
  deleteItem: \<open>DELETE FROM items WHERE id = ?\<close>.  The foreign-key action is part of the
  statement, and the rows it writes are checked against \<open>item_id INTEGER NOT NULL\<close>
  (schema.sql line 105); a violation aborts the whole statement.
\<close>

definition deleteItem :: "int \<Rightarrow> store \<Rightarrow> db_error + (nat \<times> store)" where
  "deleteItem n st =
     (if filter (\<lambda>i. i_id i = n) (items st) = [] then Inr (0, st)
      else (let hs = on_delete_set_null n (consumption_history st)
            in if list_ex (\<lambda>h. h_item_id h = None) hs then Inl NotNullFailed
               else Inr (length (filter (\<lambda>i. i_id i = n) (items st)),
                         st\<lparr>items := filter (\<lambda>i. i_id i \<noteq> n) (items st),
                            consumption_history := hs\<rparr>)))"

subsection \<open>logConsumption\<close>

text \<open>
  Returns \<open>None\<close> (JavaScript \<open>null\<close>) when the item is missing, the new rowid otherwise.
  The inserted row must satisfy CHECK(quantity_used > 0) and
  CHECK(action IN ('used','discarded','expired')).
\<close>

definition logConsumption_row ::
  "clock \<Rightarrow> store \<Rightarrow> int \<Rightarrow> item_row \<Rightarrow> real \<Rightarrow> string \<Rightarrow> string \<Rightarrow> consumption" where
  "logConsumption_row now st itemId item quantityUsed action notes =
     \<lparr> h_id = next_rowid (history_seq st) (map h_id (consumption_history st)),
       h_item_id = Some itemId,
       h_item_title = i_title item,
       h_quantity_used = quantityUsed,
       h_unit = i_unit item,
       h_action = action,
       h_notes = Some notes,
       h_consumed_at = (now_date now, now_ms now div 1000) \<rparr>"

definition logConsumption ::
  "clock \<Rightarrow> int \<Rightarrow> real \<Rightarrow> string \<Rightarrow> string \<Rightarrow> store \<Rightarrow> db_error + (int option \<times> store)" where
  "logConsumption now itemId quantityUsed action notes st =
     (case getItemById now st itemId of
        None \<Rightarrow> Inr (None, st)
      | Some item \<Rightarrow>
          (let row = logConsumption_row now st itemId item quantityUsed action notes
           in if \<not> quantityUsed > 0 then Inl CheckFailed
              else if action \<notin> set [''used'', ''discarded'', ''expired''] then Inl CheckFailed
              else Inr (Some (h_id row),
                        st\<lparr>consumption_history := consumption_history st @ [row],
                           history_seq := h_id row\<rparr>)))"

subsection \<open>The routes of app/routes/items.js\<close>

text \<open>
  A handler maps the request and the store to a response and the store it leaves.
  \<open>NotFound\<close> is the 404 answer, \<open>Success\<close> the JSON \<open>success: true\<close> or the redirect to the
  item, \<open>Failure\<close> the answer of the \<open>catch\<close> block (status 500, or a redirect with
  \<open>error=save\<close>).  Statements are not grouped in a transaction: what ran before a throw stays.
\<close>

datatype response = NotFound | Success | Failure

text \<open>
  The form fields of POST /items/create.  \<open>b_quantity\<close> is \<open>parseFloat(req.body.quantity)\<close>
  (\<open>None\<close> for \<open>NaN\<close>), \<open>b_location_id\<close> is \<open>parseInt(req.body.location_id)\<close>, \<open>b_file\<close> the
  path of the processed upload.
\<close>

record create_body =
  b_title :: "string option"
  b_description :: "string option"
  b_category :: "string option"
  b_location :: "string option"
  b_location_id :: "int option"
  b_brand :: "string option"
  b_is_homemade :: "string option"
  b_quantity :: "real option"
  b_unit :: "string option"
  b_date_added :: "int option"
  b_expiry_date :: "int option"
  b_file :: "string option"

definition itemData :: "clock \<Rightarrow> create_body \<Rightarrow> item_data" where
  "itemData now body =
     \<lparr> title = b_title body,
       description = Some (or_str (b_description body) []),
       category = Some (or_str (b_category body) ''Uncategorized''),
       location = or_null_str (b_location body),
       location_id = b_location_id body,
       brand = or_null_str (b_brand body),
       is_homemade = (b_is_homemade body = Some ''on'' \<or> b_is_homemade body = Some ''1''),
       quantity = Some (Number (or_number (b_quantity body) 1)),
       unit = Some (or_str (b_unit body) ''pcs''),
       date_added =
         Some (Day (case b_date_added body of None \<Rightarrow> utc_date now | Some d \<Rightarrow> d)),
       expiry_date = b_expiry_date body,
       image_path = b_file body \<rparr>"

definition post_items_create :: "clock \<Rightarrow> create_body \<Rightarrow> store \<Rightarrow> response \<times> store" where
  "post_items_create now body st =
     (case createItem now (itemData now body) st of
        Inl e \<Rightarrow> (Failure, st)
      | Inr (rowid, st') \<Rightarrow> (Success, st'))"

text \<open>POST /items/use/:id (items.js lines 737 to 775); \<open>amount\<close> is \<open>parseFloat(req.body.amount)\<close>.\<close>

definition post_items_use ::
  "clock \<Rightarrow> int \<Rightarrow> real option \<Rightarrow> string option \<Rightarrow> store \<Rightarrow> response \<times> store" where
  "post_items_use now n amount notes st =
     (case getItemById now st n of
        None \<Rightarrow> (NotFound, st)
      | Some item \<Rightarrow>
          (let amount' = or_number amount 1;
               newQuantity = max 0 (i_quantity item - amount')
           in case logConsumption now (i_id item) amount' ''used'' (or_str notes []) st of
                Inl e \<Rightarrow> (Failure, st)
              | Inr (r, st1) \<Rightarrow>
                  (case updateItemQuantity (i_id item) newQuantity st1 of
                     Inl e \<Rightarrow> (Failure, st1)
                   | Inr (c, st2) \<Rightarrow> (Success, st2))))"

text \<open>POST /items/discard/:id (items.js lines 813 to 844).\<close>

definition post_items_discard ::
  "clock \<Rightarrow> int \<Rightarrow> string option \<Rightarrow> string option \<Rightarrow> store \<Rightarrow> response \<times> store" where
  "post_items_discard now n kind notes st =
     (case getItemById now st n of
        None \<Rightarrow> (NotFound, st)
      | Some item \<Rightarrow>
          (let action = or_str kind ''discarded''
           in case logConsumption now (i_id item) (i_quantity item) action (or_str notes []) st of
                Inl e \<Rightarrow> (Failure, st)
              | Inr (r, st1) \<Rightarrow>
                  (case updateItemQuantity (i_id item) 0 st1 of
                     Inl e \<Rightarrow> (Failure, st1)
                   | Inr (c, st2) \<Rightarrow> (Success, st2))))"

subsection \<open>The expiry rule in the words of the specification\<close>

text \<open>
  Section 4.2 of the specification, one line per bucket: \<open>none\<close> when the expiry date is
  absent, \<open>expired\<close> when it is strictly before today, \<open>today\<close> when it equals today, \<open>soon\<close>
  when it is after today and at most 3 days after today, \<open>ok\<close> when it is more than 3 days
  after today.  \<open>status_per_spec e today s\<close> says that \<open>s\<close> is the status the rule gives
  to the expiry date \<open>e\<close>.
\<close>

definition status_per_spec :: "int option \<Rightarrow> int \<Rightarrow> string \<Rightarrow> bool" where
  "status_per_spec e today s =
     (((s = ''none'') = (e = None))
      \<and> ((s = ''expired'') = (case e of None \<Rightarrow> False | Some d \<Rightarrow> d < today))
      \<and> ((s = ''today'') = (e = Some today))
      \<and> ((s = ''soon'') = (case e of None \<Rightarrow> False | Some d \<Rightarrow> today < d \<and> d \<le> today + 3))
      \<and> ((s = ''ok'') = (case e of None \<Rightarrow> False | Some d \<Rightarrow> today + 3 < d)))"

subsection \<open>A concrete store\<close>

text \<open>
  Day 100 at noon local time.  One location, the item ``Chicken'' (3 kg, expiring on day
  102) stored in it, and the item ``Salt'' (no expiry date, nothing left).
\<close>

definition noon :: clock where
  "noon = \<lparr> now_date = 100, now_ms = 43200000, utc_date = 100 \<rparr>"

definition garage_freezer :: location where
  "garage_freezer =
     \<lparr> l_id = 1, l_name = ''Garage Freezer'', l_type = ''freezer'', l_icon = None,
       l_color = Some ''#666666'', l_sort_order = Some 1, l_is_visible = Some True \<rparr>"

definition chicken :: item where
  "chicken =
     \<lparr> i_id = 1, i_title = ''Chicken'', i_description = Some [], i_category = ''Meat'',
       i_location = None, i_location_id = Some 1, i_brand = None, i_is_homemade = False,
       i_quantity = 3, i_unit = ''kg'', i_date_added = Day 100, i_expiry_date = Some 102,
       i_image_path = None \<rparr>"

definition salt :: item where
  "salt =
     \<lparr> i_id = 2, i_title = ''Salt'', i_description = Some [], i_category = ''Spices'',
       i_location = None, i_location_id = None, i_brand = None, i_is_homemade = False,
       i_quantity = 0, i_unit = ''pcs'', i_date_added = Day 90, i_expiry_date = None,
       i_image_path = None \<rparr>"

definition cupboard :: store where
  "cupboard =
     \<lparr> locations = [garage_freezer], items = [salt, chicken], consumption_history = [],
       items_seq = 2, history_seq = 0 \<rparr>"

definition no_filters :: filters where
  "no_filters =
     \<lparr> f_locationId = None, f_location = None, f_category = None, f_search = None,
       f_expiryStatus = None \<rparr>"

text \<open>The row that both queries return for ``Chicken'' at that moment.\<close>

definition chicken_row :: item_row where
  "chicken_row = select_columns cupboard chicken ''soon'' (Some 1)"

text \<open>The store after one kilogram of ``Chicken'' has been used.\<close>

definition chicken_used :: consumption where
  "chicken_used =
     \<lparr> h_id = 1, h_item_id = Some 1, h_item_title = ''Chicken'', h_quantity_used = 1,
       h_unit = ''kg'', h_action = ''used'', h_notes = Some [], h_consumed_at = (100, 43200) \<rparr>"

definition cupboard_after_use :: store where
  "cupboard_after_use =
     \<lparr> locations = [garage_freezer], items = [salt, chicken\<lparr>i_quantity := 2\<rparr>],
       consumption_history = [chicken_used], items_seq = 2, history_seq = 1 \<rparr>"

text \<open>A create form submitted with an empty title field, and the row it produces.\<close>

definition untitled_body :: create_body where
  "untitled_body =
     \<lparr> b_title = Some [], b_description = None, b_category = None, b_location = None,
       b_location_id = Some 1, b_brand = None, b_is_homemade = None, b_quantity = None,
       b_unit = None, b_date_added = None, b_expiry_date = None, b_file = None \<rparr>"

definition untitled_item :: item where
  "untitled_item =
     \<lparr> i_id = 3, i_title = [], i_description = Some [], i_category = ''Uncategorized'',
       i_location = None, i_location_id = Some 1, i_brand = None, i_is_homemade = False,
       i_quantity = 1, i_unit = ''pcs'', i_date_added = Day 100, i_expiry_date = None,
       i_image_path = None \<rparr>"

text \<open>
  Item data with the homemade flag, a brand all the same, and quantity 0; the row it is
  stored as, and the stores after creating it and after writing it over ``Chicken''.
\<close>

definition homemade_jam :: item_data where
  "homemade_jam =
     \<lparr> title = Some ''Jam'', description = None, category = None, location = None,
       location_id = None, brand = Some ''Bonne Maman'', is_homemade = True,
       quantity = Some (Number 0), unit = Some ''g'', date_added = Some (Day 100),
       expiry_date = None,
       image_path = None \<rparr>"

definition jam :: item where
  "jam =
     \<lparr> i_id = 3, i_title = ''Jam'', i_description = Some [], i_category = ''Uncategorized'',
       i_location = None, i_location_id = None, i_brand = None, i_is_homemade = True,
       i_quantity = 1, i_unit = ''g'', i_date_added = Day 100, i_expiry_date = None,
       i_image_path = None \<rparr>"

definition cupboard_with_jam :: store where
  "cupboard_with_jam = cupboard\<lparr>items := [salt, chicken, jam], items_seq := 3\<rparr>"

definition cupboard_jam_over_chicken :: store where
  "cupboard_jam_over_chicken = cupboard\<lparr>items := [salt, jam\<lparr>i_id := 1\<rparr>]\<rparr>"

text \<open>
  The same data with the quantity given as the text \<open>"0"\<close>, and the store after writing
  it over ``Chicken''.
\<close>

definition jam_text_zero :: item_data where
  "jam_text_zero = homemade_jam\<lparr>quantity := Some (Numeric_text 0)\<rparr>"

definition cupboard_jam_zero :: store where
  "cupboard_jam_zero = cupboard\<lparr>items := [salt, jam\<lparr>i_id := 1, i_quantity := 0\<rparr>]\<rparr>"

lemmas example_defs =
  noon_def garage_freezer_def chicken_def salt_def cupboard_def no_filters_def
  chicken_row_def chicken_used_def cupboard_after_use_def untitled_body_def untitled_item_def
  homemade_jam_def jam_def cupboard_with_jam_def cupboard_jam_over_chicken_def
  jam_text_zero_def cupboard_jam_zero_def

lemmas query_defs =
  getItems_def getItemById_def select_columns_def joined_location_def where_clause_def
  locationId_clause_def location_clause_def category_clause_def search_clause_def
  expiryStatus_clause_def order_key_def getItems_expiry_status_def
  getItemById_expiry_status_def getItems_days_until_expiry_def
  getItemById_days_until_expiry_def cast_integer_def julianday_date_def julianday_now_def

lemmas store_defs =
  createItem_def createItem_row_def updateItem_def updateItem_row_def updateItemQuantity_def
  deleteItem_def on_delete_set_null_def logConsumption_def logConsumption_row_def
  items_constraints_def next_rowid_def or_str_def or_null_str_def or_null_int_def
  or_number_def or_quantity_def post_items_create_def itemData_def post_items_use_def
  post_items_discard_def


section \<open>Properties\<close>

subsection \<open>Result rows\<close>

lemma select_columns_sel [simp]:
  "i_id (select_columns st i s d) = i_id i"
  "i_title (select_columns st i s d) = i_title i"
  "i_unit (select_columns st i s d) = i_unit i"
  "i_quantity (select_columns st i s d) = i_quantity i"
  "i_brand (select_columns st i s d) = i_brand i"
  "i_is_homemade (select_columns st i s d) = i_is_homemade i"
  "i_expiry_date (select_columns st i s d) = i_expiry_date i"
  "expiry_status (select_columns st i s d) = s"
  "days_until_expiry (select_columns st i s d) = d"
  by (simp_all add: select_columns_def)

subsection \<open>Expiry status\<close>

lemma getItems_expiry_status_spec:
  "status_per_spec (i_expiry_date i) (now_date now) (getItems_expiry_status now i)"
  by (auto simp: status_per_spec_def getItems_expiry_status_def split: option.splits)

lemma getItemById_expiry_status_spec:
  "status_per_spec (i_expiry_date i) (now_date now) (getItemById_expiry_status now i)"
  by (auto simp: status_per_spec_def getItemById_expiry_status_def split: option.splits)

text \<open>
  C1.  The expiry_status of every row of the item list, and of the row of the single-item
  lookup, is the status that the rule of the specification gives to the row's expiry date
  and the current local date: \<open>none\<close> exactly when the date is absent, \<open>expired\<close> exactly
  when it is before today, \<open>today\<close> exactly when it is today, \<open>soon\<close> exactly when it is 1
  to 3 days ahead, \<open>ok\<close> exactly when it is more than 3 days ahead.  Nothing else of the
  row, the filters or the store enters.
\<close>

theorem expiry_status_rule:
  "(r \<in> set (getItems now f st) \<longrightarrow>
      status_per_spec (i_expiry_date r) (now_date now) (expiry_status r))
   \<and> (getItemById now st n = Some r' \<longrightarrow>
      status_per_spec (i_expiry_date r') (now_date now) (expiry_status r'))"
proof (intro conjI impI)
  assume "r \<in> set (getItems now f st)"
  then obtain i where
    "r = select_columns st i (getItems_expiry_status now i) (getItems_days_until_expiry now i)"
    by (auto simp: getItems_def)
  then show "status_per_spec (i_expiry_date r) (now_date now) (expiry_status r)"
    by (simp add: getItems_expiry_status_spec)
next
  assume "getItemById now st n = Some r'"
  then obtain i where
    "r' = select_columns st i (getItemById_expiry_status now i)
            (getItemById_days_until_expiry now i)"
    by (auto simp: getItemById_def)
  then show "status_per_spec (i_expiry_date r') (now_date now) (expiry_status r')"
    by (simp add: getItemById_expiry_status_spec)
qed

theorem expiry_status_rule_witness:
  "hd (getItems noon no_filters cupboard) \<in> set (getItems noon no_filters cupboard)
   \<and> getItemById noon cupboard 1 = Some (hd (getItems noon no_filters cupboard))
   \<and> expiry_status (hd (getItems noon no_filters cupboard)) = ''soon''
   \<and> status_per_spec (Some 102) 100 (expiry_status (hd (getItems noon no_filters cupboard)))"
  using expiry_status_rule [of "hd (getItems noon no_filters cupboard)" noon no_filters
      cupboard 1 "hd (getItems noon no_filters cupboard)"]
  by (simp add: example_defs query_defs)

subsection \<open>Ordering of the item list\<close>

text \<open>
  C8.  Whatever the filters, in the list returned by getItems a row without expiry date is
  followed only by rows without expiry date, and two rows with expiry dates stand in
  ascending order of the date, rows of equal date in ascending order of the title (the
  order of the character codes, SQLite's BINARY collation).
\<close>

theorem getItems_order:
  assumes "i < j" and "j < length (getItems now f st)"
  shows "(i_expiry_date (getItems now f st ! i) = None \<longrightarrow>
            i_expiry_date (getItems now f st ! j) = None)
         \<and> (\<forall>x y. i_expiry_date (getItems now f st ! i) = Some x
                  \<and> i_expiry_date (getItems now f st ! j) = Some y \<longrightarrow>
                x \<le> y
                \<and> (x = y \<longrightarrow> i_title (getItems now f st ! i) \<le> i_title (getItems now f st ! j)))"
proof -
  define xs where "xs = sort_key order_key (filter (where_clause now f st) (items st))"
  have len: "j < length xs" "i < length xs"
    using assms by (simp_all add: getItems_def xs_def)
  have "sorted (map order_key xs)"
    by (simp add: xs_def)
  then have "map order_key xs ! i \<le> map order_key xs ! j"
    using assms len by (simp add: sorted_iff_nth_mono del: nth_map)
  then have le: "order_key (xs ! i) \<le> order_key (xs ! j)"
    using len by simp
  have ri: "i_expiry_date (getItems now f st ! i) = i_expiry_date (xs ! i)"
    "i_title (getItems now f st ! i) = i_title (xs ! i)"
    using len by (simp_all add: getItems_def xs_def)
  have rj: "i_expiry_date (getItems now f st ! j) = i_expiry_date (xs ! j)"
    "i_title (getItems now f st ! j) = i_title (xs ! j)"
    using len by (simp_all add: getItems_def xs_def)
  from le show ?thesis
    unfolding ri rj by (auto simp: order_key_def split: option.splits)
qed

theorem getItems_order_witness:
  "(0::nat) < 1 \<and> 1 < length (getItems noon no_filters cupboard)
   \<and> i_expiry_date (getItems noon no_filters cupboard ! 0) = Some 102
   \<and> i_expiry_date (getItems noon no_filters cupboard ! 1) = None"
  using getItems_order [of 0 1 noon no_filters cupboard]
  by (simp add: example_defs query_defs)

subsection \<open>Filtering by expiry bucket\<close>

lemma where_clause_expiryStatus:
  "where_clause now (f\<lparr>f_expiryStatus := Some b\<rparr>) st i =
     (where_clause now (f\<lparr>f_expiryStatus := None\<rparr>) st i
      \<and> expiryStatus_clause now (f\<lparr>f_expiryStatus := Some b\<rparr>) i)"
  by (simp add: where_clause_def locationId_clause_def location_clause_def category_clause_def
      search_clause_def expiryStatus_clause_def)

lemma expiryStatus_clause_bucket:
  "b \<in> {''expired'', ''today'', ''soon''} \<Longrightarrow>
     expiryStatus_clause now (f\<lparr>f_expiryStatus := Some b\<rparr>) i =
       (getItems_expiry_status now i = b)"
  by (auto simp: expiryStatus_clause_def getItems_expiry_status_def split: option.splits)

lemma expiryStatus_clause_ok:
  "expiryStatus_clause now (f\<lparr>f_expiryStatus := Some ''ok''\<rparr>) i =
     (getItems_expiry_status now i = ''ok'' \<or> getItems_expiry_status now i = ''none'')"
  by (auto simp: expiryStatus_clause_def getItems_expiry_status_def split: option.splits)

text \<open>
  A bucket whose WHERE condition is a condition \<open>P\<close> on the computed status selects, from
  the list under the other filters, the rows whose status satisfies \<open>P\<close>, in the same order.
\<close>

lemma getItems_expiryStatus_filter:
  assumes "\<And>i. expiryStatus_clause now (f\<lparr>f_expiryStatus := Some b\<rparr>) i =
             P (getItems_expiry_status now i)"
  shows "getItems now (f\<lparr>f_expiryStatus := Some b\<rparr>) st =
     filter (\<lambda>r. P (expiry_status r)) (getItems now (f\<lparr>f_expiryStatus := None\<rparr>) st)"
proof -
  have eq: "where_clause now (f\<lparr>f_expiryStatus := Some b\<rparr>) st =
        (\<lambda>i. where_clause now (f\<lparr>f_expiryStatus := None\<rparr>) st i
             \<and> P (getItems_expiry_status now i))"
    by (rule ext) (simp add: where_clause_expiryStatus assms)
  show ?thesis
    by (simp add: getItems_def eq filter_map filter_sort comp_def conj_commute)
qed

text \<open>
  C2 (amended).  Whatever the other filters \<open>f\<close>: for a bucket \<open>b\<close> among \<open>expired\<close>, \<open>today\<close>
  and \<open>soon\<close>, getItems with expiryStatus \<open>b\<close> returns exactly the rows of the list under the
  other filters whose computed expiry_status is \<open>b\<close>; with expiryStatus \<open>ok\<close> it returns
  exactly the rows whose status is \<open>ok\<close> or \<open>none\<close>.  Items without expiry date are in the
  \<open>ok\<close> bucket and in no other.
\<close>

theorem getItems_expiryStatus_bucket:
  "(b \<in> {''expired'', ''today'', ''soon''} \<longrightarrow>
      getItems now (f\<lparr>f_expiryStatus := Some b\<rparr>) st =
        filter (\<lambda>r. expiry_status r = b) (getItems now (f\<lparr>f_expiryStatus := None\<rparr>) st))
   \<and> getItems now (f\<lparr>f_expiryStatus := Some ''ok''\<rparr>) st =
        filter (\<lambda>r. expiry_status r = ''ok'' \<or> expiry_status r = ''none'')
          (getItems now (f\<lparr>f_expiryStatus := None\<rparr>) st)"
proof (intro conjI impI)
  assume b: "b \<in> {''expired'', ''today'', ''soon''}"
  show "getItems now (f\<lparr>f_expiryStatus := Some b\<rparr>) st =
        filter (\<lambda>r. expiry_status r = b) (getItems now (f\<lparr>f_expiryStatus := None\<rparr>) st)"
    by (rule getItems_expiryStatus_filter [where P = "\<lambda>s. s = b"])
       (rule expiryStatus_clause_bucket [OF b])
next
  show "getItems now (f\<lparr>f_expiryStatus := Some ''ok''\<rparr>) st =
        filter (\<lambda>r. expiry_status r = ''ok'' \<or> expiry_status r = ''none'')
          (getItems now (f\<lparr>f_expiryStatus := None\<rparr>) st)"
    by (rule getItems_expiryStatus_filter [where P = "\<lambda>s. s = ''ok'' \<or> s = ''none''"])
       (rule expiryStatus_clause_ok)
qed

theorem getItems_expiryStatus_bucket_witness:
  "''soon'' \<in> {''expired'', ''today'', ''soon''}
   \<and> map i_title (getItems noon (no_filters\<lparr>f_expiryStatus := Some ''soon''\<rparr>) cupboard)
       = [''Chicken'']
   \<and> getItems noon (no_filters\<lparr>f_expiryStatus := Some ''soon''\<rparr>) cupboard =
        filter (\<lambda>r. expiry_status r = ''soon'')
          (getItems noon (no_filters\<lparr>f_expiryStatus := None\<rparr>) cupboard)"
  using getItems_expiryStatus_bucket [of "''soon''" noon no_filters cupboard]
  by (simp add: example_defs query_defs)

text \<open>
  Against C2 as stated: with expiryStatus \<open>ok\<close> and no other filter, the list for the
  concrete store is the single item ``Salt'', which has no expiry date and status \<open>none\<close>.
\<close>

theorem ok_bucket_returns_undated_item:
  "map i_title (getItems noon (no_filters\<lparr>f_expiryStatus := Some ''ok''\<rparr>) cupboard)
     = [''Salt'']
   \<and> map i_expiry_date (getItems noon (no_filters\<lparr>f_expiryStatus := Some ''ok''\<rparr>) cupboard)
     = [None]
   \<and> map expiry_status (getItems noon (no_filters\<lparr>f_expiryStatus := Some ''ok''\<rparr>) cupboard)
     = [''none'']"
  by (simp add: example_defs query_defs)

subsection \<open>Days until expiry\<close>

lemma cast_integer_frac:
  assumes "0 < x" and "x < 1"
  shows "cast_integer (real_of_int k - x) = (if 0 < k then k - 1 else k)"
proof (cases "0 < k")
  case True
  then have "0 \<le> real_of_int k - x"
    using assms by linarith
  moreover have "\<lfloor>real_of_int k - x\<rfloor> = k - 1"
    using assms by linarith
  ultimately show ?thesis
    using True by (simp add: cast_integer_def)
next
  case False
  then have "\<not> 0 \<le> real_of_int k - x"
    using assms by linarith
  moreover have "\<lceil>real_of_int k - x\<rceil> = k"
    using assms by linarith
  ultimately show ?thesis
    using False by (simp add: cast_integer_def)
qed

text \<open>
  What the column holds: the calendar difference at local midnight and for dates up to
  today, one day less than the calendar difference for every later date at any other time.
\<close>

lemma days_until_expiry_value:
  assumes "i_expiry_date i = Some d" and "now_ms now < 86400000"
  shows "getItems_days_until_expiry now i =
     Some (if 0 < now_ms now \<and> now_date now < d then d - now_date now - 1
           else d - now_date now)"
proof (cases "now_ms now = 0")
  case True
  have "julianday_date d - julianday_now now = real_of_int (d - now_date now)"
    by (simp add: julianday_date_def julianday_now_def True)
  then show ?thesis
    using assms True by (simp add: getItems_days_until_expiry_def cast_integer_def del: of_int_diff)
next
  case False
  define x where "x = real (now_ms now) / 86400000"
  have x: "0 < x" "x < 1"
    using False assms by (simp_all add: x_def)
  have "julianday_date d - julianday_now now = real_of_int (d - now_date now) - x"
    by (simp add: julianday_date_def julianday_now_def x_def)
  then show ?thesis
    using assms False cast_integer_frac [OF x, of "d - now_date now"]
    by (simp add: getItems_days_until_expiry_def)
qed

text \<open>
  C7 at a concrete input.  ``Chicken'' expires on day 102 and the local date is day 100, a
  calendar difference of 2 days; at noon both queries return days_until_expiry 1.  (For
  ``Salt'', without expiry date, the column is null.)
\<close>

theorem days_until_expiry_at_noon:
  "map i_expiry_date (getItems noon no_filters cupboard) = [Some 102, None]
   \<and> map days_until_expiry (getItems noon no_filters cupboard) = [Some 1, None]
   \<and> map_option i_expiry_date (getItemById noon cupboard 1) = Some (Some 102)
   \<and> map_option days_until_expiry (getItemById noon cupboard 1) = Some (Some 1)
   \<and> now_date noon = 100"
  by (simp add: example_defs query_defs)

subsection \<open>Lookups in the items table\<close>

lemma find_id_map:
  assumes "\<And>i. i_id (g i) = i_id i"
  shows "find (\<lambda>i. i_id i = n) (map (\<lambda>i. if i_id i = n then g i else i) xs) =
         map_option g (find (\<lambda>i. i_id i = n) xs)"
  by (induction xs) (simp_all add: assms)

lemma find_Some_id: "find (\<lambda>i. i_id i = n) xs = Some i \<Longrightarrow> i_id i = n \<and> i \<in> set xs"
  by (induction xs) (auto split: if_splits)

lemma find_append_fresh:
  "\<forall>x\<in>set xs. \<not> P x \<Longrightarrow> P y \<Longrightarrow> find P (xs @ [y]) = Some y"
  by (induction xs) simp_all

lemma filter_find: "filter P xs \<noteq> [] \<Longrightarrow> \<exists>i. find P xs = Some i"
  by (induction xs) auto

lemma map_filter_Nil: "List.map_filter f xs = [] \<Longrightarrow> x \<in> set xs \<Longrightarrow> f x = None"
  by (induction xs) (auto simp: map_filter_simps split: option.splits)

lemma next_rowid_fresh: "x \<in> set ids \<Longrightarrow> x < next_rowid seq ids"
  by (induction ids) (auto simp: next_rowid_def)

lemma getItemById_Some:
  assumes "getItemById now st n = Some r"
  shows "\<exists>i. find (\<lambda>i. i_id i = n) (items st) = Some i \<and> i_id r = n
           \<and> i_title r = i_title i \<and> i_unit r = i_unit i \<and> i_quantity r = i_quantity i"
proof -
  from assms obtain i where i: "find (\<lambda>i. i_id i = n) (items st) = Some i"
    and r: "r = select_columns st i (getItemById_expiry_status now i)
                  (getItemById_days_until_expiry now i)"
    by (auto simp: getItemById_def)
  have "i_id i = n"
    using find_Some_id [OF i] by simp
  then have "find (\<lambda>i. i_id i = n) (items st) = Some i \<and> i_id r = n
           \<and> i_title r = i_title i \<and> i_unit r = i_unit i \<and> i_quantity r = i_quantity i"
    unfolding r using i by simp
  then show ?thesis ..
qed

lemma find_getItemById:
  "find (\<lambda>i. i_id i = n) (items st) = Some i \<Longrightarrow>
   \<exists>r. getItemById now st n = Some r \<and> i_brand r = i_brand i
       \<and> i_is_homemade r = i_is_homemade i \<and> i_quantity r = i_quantity i"
  by (simp add: getItemById_def)

lemma getItemById_chicken: "getItemById noon cupboard 1 = Some chicken_row"
  by (simp add: example_defs query_defs)

subsection \<open>Using and discarding\<close>

lemma logConsumption_ok:
  assumes "getItemById now st n = Some r" and "0 < q"
    and "action \<in> {''used'', ''discarded'', ''expired''}"
  shows "logConsumption now n q action notes st =
           Inr (Some (h_id (logConsumption_row now st n r q action notes)),
                st\<lparr>consumption_history :=
                       consumption_history st @ [logConsumption_row now st n r q action notes],
                   history_seq := h_id (logConsumption_row now st n r q action notes)\<rparr>)"
  using assms by (simp add: logConsumption_def Let_def)

lemma logConsumption_row_sel [simp]:
  "h_item_id (logConsumption_row now st n r q action notes) = Some n"
  "h_item_title (logConsumption_row now st n r q action notes) = i_title r"
  "h_quantity_used (logConsumption_row now st n r q action notes) = q"
  "h_unit (logConsumption_row now st n r q action notes) = i_unit r"
  "h_action (logConsumption_row now st n r q action notes) = action"
  by (simp_all add: logConsumption_row_def)

lemma updateItemQuantity_ok:
  assumes "find (\<lambda>i. i_id i = n) (items st) = Some i" and "0 \<le> q"
  shows "\<exists>c st'. updateItemQuantity n q st = Inr (c, st')
          \<and> consumption_history st' = consumption_history st
          \<and> find (\<lambda>i. i_id i = n) (items st') = Some (i\<lparr>i_quantity := q\<rparr>)"
  using assms by (simp add: updateItemQuantity_def find_id_map)

lemma getItemById_missing: "getItemById noon cupboard 7 = None"
  by (simp add: example_defs query_defs)

lemma chicken_row_quantity: "i_quantity chicken_row = 3"
  by (simp add: example_defs select_columns_def)

text \<open>
  C3 (amended).  For an existing item and a requested amount greater than 0, the use route
  answers with success, appends exactly one consumption record (action \<open>used\<close>,
  quantity_used the amount as requested, not clamped, item id, title and unit of the item
  as they were) and leaves the item's quantity at \<open>max 0 (quantity - amount)\<close>, which is
  never negative.  For an id that no item has, whatever the amount, it answers not-found
  and leaves the store unchanged.
\<close>

theorem use_logs_and_clamps:
  "(getItemById now st n = Some item \<and> 0 < a \<longrightarrow>
      (\<exists>st' row item'.
         post_items_use now n (Some a) notes st = (Success, st')
         \<and> consumption_history st' = consumption_history st @ [row]
         \<and> h_action row = ''used'' \<and> h_quantity_used row = a \<and> h_item_id row = Some n
         \<and> h_item_title row = i_title item \<and> h_unit row = i_unit item
         \<and> getItemById now st' n = Some item'
         \<and> i_quantity item' = max 0 (i_quantity item - a) \<and> 0 \<le> i_quantity item'))
   \<and> (getItemById now st n = None \<longrightarrow> post_items_use now n amount notes st = (NotFound, st))"
proof (intro conjI impI)
  assume "getItemById now st n = None"
  then show "post_items_use now n amount notes st = (NotFound, st)"
    by (simp add: post_items_use_def)
next
  assume a: "getItemById now st n = Some item \<and> 0 < a"
  then obtain i where i: "find (\<lambda>i. i_id i = n) (items st) = Some i"
    and id: "i_id item = n" and q: "i_quantity item = i_quantity i"
    using getItemById_Some [of now st n item] by auto
  define q' where "q' = max 0 (i_quantity item - a)"
  define row where "row = logConsumption_row now st n item a ''used'' (or_str notes [])"
  define st1 where
    "st1 = st\<lparr>consumption_history := consumption_history st @ [row], history_seq := h_id row\<rparr>"
  have log: "logConsumption now n a ''used'' (or_str notes []) st = Inr (Some (h_id row), st1)"
    using logConsumption_ok [of now st n item a "''used''" "or_str notes []"] a
    by (simp add: row_def st1_def)
  have "find (\<lambda>i. i_id i = n) (items st1) = Some i"
    using i by (simp add: st1_def)
  moreover have "0 \<le> q'"
    by (simp add: q'_def)
  ultimately obtain c st2 where upd: "updateItemQuantity n q' st1 = Inr (c, st2)"
    and h2: "consumption_history st2 = consumption_history st1"
    and f2: "find (\<lambda>i. i_id i = n) (items st2) = Some (i\<lparr>i_quantity := q'\<rparr>)"
    using updateItemQuantity_ok by blast
  obtain item' where item': "getItemById now st2 n = Some item'" "i_quantity item' = q'"
    using find_getItemById [OF f2, of now] by auto
  have run: "post_items_use now n (Some a) notes st = (Success, st2)"
    using a log upd id by (simp add: post_items_use_def or_number_def q'_def)
  have hist: "consumption_history st2 = consumption_history st @ [row]"
    using h2 by (simp add: st1_def)
  have "post_items_use now n (Some a) notes st = (Success, st2)
         \<and> consumption_history st2 = consumption_history st @ [row]
         \<and> h_action row = ''used'' \<and> h_quantity_used row = a \<and> h_item_id row = Some n
         \<and> h_item_title row = i_title item \<and> h_unit row = i_unit item
         \<and> getItemById now st2 n = Some item'
         \<and> i_quantity item' = max 0 (i_quantity item - a) \<and> 0 \<le> i_quantity item'"
    using run hist item' by (simp add: row_def q'_def)
  then show "\<exists>st' row item'.
         post_items_use now n (Some a) notes st = (Success, st')
         \<and> consumption_history st' = consumption_history st @ [row]
         \<and> h_action row = ''used'' \<and> h_quantity_used row = a \<and> h_item_id row = Some n
         \<and> h_item_title row = i_title item \<and> h_unit row = i_unit item
         \<and> getItemById now st' n = Some item'
         \<and> i_quantity item' = max 0 (i_quantity item - a) \<and> 0 \<le> i_quantity item'"
    by blast
qed

theorem use_logs_and_clamps_witness:
  "getItemById noon cupboard 1 = Some chicken_row \<and> (0::real) < 5
   \<and> getItemById noon cupboard 7 = None
   \<and> post_items_use noon 7 None None cupboard = (NotFound, cupboard)
   \<and> (\<exists>st' row item'.
         post_items_use noon 1 (Some 5) None cupboard = (Success, st')
         \<and> consumption_history st' = consumption_history cupboard @ [row]
         \<and> h_action row = ''used'' \<and> h_quantity_used row = 5 \<and> h_item_id row = Some 1
         \<and> h_item_title row = i_title chicken_row \<and> h_unit row = i_unit chicken_row
         \<and> getItemById noon st' 1 = Some item'
         \<and> i_quantity item' = max 0 (i_quantity chicken_row - 5) \<and> 0 \<le> i_quantity item')"
  using use_logs_and_clamps [of noon cupboard 1 chicken_row 5 None]
    use_logs_and_clamps [of noon cupboard 7 chicken_row 5 None None]
    getItemById_chicken
  by (simp add: getItemById_missing)

text \<open>
  Against C3 as stated (every amount): for the amount -1 the insert into
  consumption_history breaks CHECK(quantity_used > 0), the handler answers with the
  failure of its catch block, and no record is appended.
\<close>

theorem use_negative_amount_rejected:
  "post_items_use noon 1 (Some (- 1)) None cupboard = (Failure, cupboard)"
  by (simp add: example_defs query_defs store_defs)

text \<open>
  C4 (amended).  For an existing item whose quantity is greater than 0 and a kind among
  \<open>discarded\<close> and \<open>expired\<close>, the discard route answers with success, appends exactly one
  consumption record of that kind whose quantity_used is the item's whole quantity before
  the call, and leaves the item's quantity at 0.
\<close>

theorem discard_logs_whole_quantity:
  "getItemById now st n = Some item \<and> 0 < i_quantity item
     \<and> kind \<in> {''discarded'', ''expired''} \<longrightarrow>
      (\<exists>st' row item'.
         post_items_discard now n (Some kind) notes st = (Success, st')
         \<and> consumption_history st' = consumption_history st @ [row]
         \<and> h_action row = kind \<and> h_quantity_used row = i_quantity item
         \<and> h_item_id row = Some n
         \<and> h_item_title row = i_title item \<and> h_unit row = i_unit item
         \<and> getItemById now st' n = Some item' \<and> i_quantity item' = 0)"
proof
  assume a: "getItemById now st n = Some item \<and> 0 < i_quantity item
     \<and> kind \<in> {''discarded'', ''expired''}"
  then obtain i where i: "find (\<lambda>i. i_id i = n) (items st) = Some i"
    and id: "i_id item = n"
    using getItemById_Some [of now st n item] by auto
  have kind: "or_str (Some kind) ''discarded'' = kind"
    using a by (auto simp: or_str_def)
  define row where
    "row = logConsumption_row now st n item (i_quantity item) kind (or_str notes [])"
  define st1 where
    "st1 = st\<lparr>consumption_history := consumption_history st @ [row], history_seq := h_id row\<rparr>"
  have log: "logConsumption now n (i_quantity item) kind (or_str notes []) st =
      Inr (Some (h_id row), st1)"
    using logConsumption_ok [of now st n item "i_quantity item" kind "or_str notes []"] a
    by (simp add: row_def st1_def)
  have "find (\<lambda>i. i_id i = n) (items st1) = Some i"
    using i by (simp add: st1_def)
  then obtain c st2 where upd: "updateItemQuantity n 0 st1 = Inr (c, st2)"
    and h2: "consumption_history st2 = consumption_history st1"
    and f2: "find (\<lambda>i. i_id i = n) (items st2) = Some (i\<lparr>i_quantity := 0\<rparr>)"
    using updateItemQuantity_ok [of n st1 i 0] by auto
  obtain item' where item': "getItemById now st2 n = Some item'" "i_quantity item' = 0"
    using find_getItemById [OF f2, of now] by auto
  have run: "post_items_discard now n (Some kind) notes st = (Success, st2)"
    using a log upd id kind by (simp add: post_items_discard_def)
  have hist: "consumption_history st2 = consumption_history st @ [row]"
    using h2 by (simp add: st1_def)
  have "post_items_discard now n (Some kind) notes st = (Success, st2)
         \<and> consumption_history st2 = consumption_history st @ [row]
         \<and> h_action row = kind \<and> h_quantity_used row = i_quantity item
         \<and> h_item_id row = Some n
         \<and> h_item_title row = i_title item \<and> h_unit row = i_unit item
         \<and> getItemById now st2 n = Some item' \<and> i_quantity item' = 0"
    using run hist item' by (simp add: row_def)
  then show "\<exists>st' row item'.
         post_items_discard now n (Some kind) notes st = (Success, st')
         \<and> consumption_history st' = consumption_history st @ [row]
         \<and> h_action row = kind \<and> h_quantity_used row = i_quantity item
         \<and> h_item_id row = Some n
         \<and> h_item_title row = i_title item \<and> h_unit row = i_unit item
         \<and> getItemById now st' n = Some item' \<and> i_quantity item' = 0"
    by blast
qed

theorem discard_logs_whole_quantity_witness:
  "getItemById noon cupboard 1 = Some chicken_row \<and> 0 < i_quantity chicken_row
   \<and> ''expired'' \<in> {''discarded'', ''expired''}
   \<and> (\<exists>st' row item'.
         post_items_discard noon 1 (Some ''expired'') None cupboard = (Success, st')
         \<and> consumption_history st' = consumption_history cupboard @ [row]
         \<and> h_action row = ''expired'' \<and> h_quantity_used row = 3
         \<and> h_item_id row = Some 1
         \<and> h_item_title row = i_title chicken_row \<and> h_unit row = i_unit chicken_row
         \<and> getItemById noon st' 1 = Some item' \<and> i_quantity item' = 0)"
  using discard_logs_whole_quantity [of noon cupboard 1 chicken_row "''expired''" None]
    getItemById_chicken chicken_row_quantity
  by simp

text \<open>
  Against C4 as stated (every existing item): ``Salt'' has quantity 0, the insert of a
  record with quantity_used 0 breaks CHECK(quantity_used > 0), and nothing is appended.
\<close>

theorem discard_of_empty_item_rejected:
  "post_items_discard noon 2 (Some ''discarded'') None cupboard = (Failure, cupboard)"
  by (simp add: example_defs query_defs store_defs)

subsection \<open>Deleting an item that has consumption records\<close>

text \<open>
  C5 at a concrete input.  After one use of ``Chicken'' its consumption record refers to
  item 1.  Deleting item 1 makes the foreign-key action write NULL into a NOT NULL column:
  the statement is aborted, the item stays, and the record keeps its item id.
\<close>

theorem delete_item_with_history_fails:
  "post_items_use noon 1 (Some 1) None cupboard = (Success, cupboard_after_use)
   \<and> deleteItem 1 cupboard_after_use = Inl NotNullFailed"
  by (simp add: example_defs query_defs store_defs)

subsection \<open>Creating and updating\<close>

text \<open>
  C6 at a concrete input.  A create request whose title is the empty string is answered
  with success, and a row with the empty title is added to the items table.
\<close>

theorem create_accepts_empty_title:
  "post_items_create noon untitled_body cupboard =
     (Success, cupboard\<lparr>items := items cupboard @ [untitled_item], items_seq := 3\<rparr>)
   \<and> i_title untitled_item = []"
  by (simp add: example_defs query_defs store_defs)

lemma createItem_readback:
  assumes "createItem now item st = Inr (n, st')"
  shows "\<exists>t. title item = Some t
           \<and> items_constraints st (createItem_row now st t item) = None
           \<and> find (\<lambda>i. i_id i = n) (items st') = Some (createItem_row now st t item)"
proof -
  from assms obtain t where t: "title item = Some t"
    by (auto simp: createItem_def split: option.splits)
  define row where "row = createItem_row now st t item"
  from assms t have c: "items_constraints st row = None"
    and n: "n = i_id row" and st': "items st' = items st @ [row]"
    by (auto simp: createItem_def Let_def row_def split: option.splits)
  have "i_id row = next_rowid (items_seq st) (map i_id (items st))"
    by (simp add: row_def createItem_row_def)
  then have "\<forall>x\<in>set (items st). \<not> i_id x = n"
    using next_rowid_fresh [of _ "map i_id (items st)" "items_seq st"] n by fastforce
  then have "find (\<lambda>i. i_id i = n) (items st') = Some row"
    unfolding st' using n by (intro find_append_fresh) simp_all
  with t c show ?thesis by (simp add: row_def)
qed

lemma updateItem_readback:
  assumes "updateItem n item st = Inr (c, st')" "0 < c"
  shows "\<exists>t d i. title item = Some t \<and> date_added item = Some d
           \<and> items_constraints st (updateItem_row t d item i) = None
           \<and> find (\<lambda>i. i_id i = n) (items st') = Some (updateItem_row t d item i)"
proof -
  from assms obtain t d where t: "title item = Some t" and d: "date_added item = Some d"
    by (auto simp: updateItem_def split: option.splits)
  define hits where "hits = filter (\<lambda>i. i_id i = n) (items st)"
  from assms t d
  have ok: "List.map_filter (\<lambda>i. items_constraints st (updateItem_row t d item i)) hits = []"
    and c: "c = length hits"
    and st': "items st' = map (\<lambda>i. if i_id i = n then updateItem_row t d item i else i) (items st)"
    by (auto simp: updateItem_def hits_def split: list.splits)
  from c assms have "hits \<noteq> []" by auto
  then obtain i where i: "find (\<lambda>i. i_id i = n) (items st) = Some i"
    using filter_find [of "\<lambda>i. i_id i = n" "items st"] by (auto simp: hits_def)
  have "i \<in> set hits"
    using find_Some_id [OF i] by (simp add: hits_def)
  with ok have "items_constraints st (updateItem_row t d item i) = None"
    by (rule map_filter_Nil)
  moreover have "find (\<lambda>i. i_id i = n) (items st') = Some (updateItem_row t d item i)"
    unfolding st' using i by (simp add: find_id_map updateItem_row_def)
  ultimately show ?thesis using t d by blast
qed

lemma createItem_jam: "createItem noon homemade_jam cupboard = Inr (3, cupboard_with_jam)"
  by (simp add: example_defs store_defs)

lemma updateItem_jam: "updateItem 1 homemade_jam cupboard = Inr (1, cupboard_jam_over_chicken)"
  by (simp add: example_defs store_defs map_filter_simps)

text \<open>
  C9.  When the item data has the homemade flag, whatever brand it carries: a successful
  createItem stores a row that getItemById reads back with is_homemade true and no brand,
  and so does an updateItem that changed a row.
\<close>

theorem homemade_stores_no_brand:
  "(is_homemade item \<and> createItem now item st = Inr (n, st') \<longrightarrow>
      (\<exists>r. getItemById now' st' n = Some r \<and> i_is_homemade r \<and> i_brand r = None))
   \<and> (is_homemade item \<and> updateItem m item st = Inr (c, st'') \<and> 0 < c \<longrightarrow>
      (\<exists>r. getItemById now' st'' m = Some r \<and> i_is_homemade r \<and> i_brand r = None))"
proof (intro conjI impI)
  assume a: "is_homemade item \<and> createItem now item st = Inr (n, st')"
  then obtain t where "find (\<lambda>i. i_id i = n) (items st') = Some (createItem_row now st t item)"
    using createItem_readback [of now item st n st'] by auto
  from find_getItemById [OF this, of now'] a
  show "\<exists>r. getItemById now' st' n = Some r \<and> i_is_homemade r \<and> i_brand r = None"
    by (auto simp: createItem_row_def)
next
  assume a: "is_homemade item \<and> updateItem m item st = Inr (c, st'') \<and> 0 < c"
  then obtain t d i where
    "find (\<lambda>i. i_id i = m) (items st'') = Some (updateItem_row t d item i)"
    using updateItem_readback [of m item st c st''] by auto
  from find_getItemById [OF this, of now'] a
  show "\<exists>r. getItemById now' st'' m = Some r \<and> i_is_homemade r \<and> i_brand r = None"
    by (auto simp: updateItem_row_def)
qed

theorem homemade_stores_no_brand_witness:
  "is_homemade homemade_jam \<and> brand homemade_jam = Some ''Bonne Maman''
   \<and> createItem noon homemade_jam cupboard = Inr (3, cupboard_with_jam)
   \<and> updateItem 1 homemade_jam cupboard = Inr (1, cupboard_jam_over_chicken)
   \<and> (0::nat) < 1
   \<and> (\<exists>r. getItemById noon cupboard_with_jam 3 = Some r \<and> i_is_homemade r \<and> i_brand r = None)
   \<and> (\<exists>r. getItemById noon cupboard_jam_over_chicken 1 = Some r
          \<and> i_is_homemade r \<and> i_brand r = None)"
  using homemade_stores_no_brand [where item = homemade_jam and now = noon and st = cupboard
      and n = 3 and st' = cupboard_with_jam and now' = noon and m = 1 and c = 1
      and st'' = cupboard_jam_over_chicken]
    createItem_jam updateItem_jam
  by (simp add: homemade_jam_def)











end
